theory Spec2Isabelle
  imports Main
begin

section \<open>The llama-parse client (src/src/index.ts)\<close>

text \<open>
  The client is one class, \<^verbatim>\<open>LlamaParse\<close>, with a constructor and four asynchronous
  methods. Everything it does beyond computing strings is an effect on its environment:
  an HTTP request through \<^verbatim>\<open>fetch\<close>, or a timer set with \<^verbatim>\<open>setTimeout\<close>. The embedding
  threads a world through the methods; the world holds the state of the remote server and
  the trace of the effects performed so far. A thrown \<^verbatim>\<open>Error\<close> (a rejected promise) is
  the left injection of a sum.
\<close>

subsection \<open>JavaScript values\<close>

text \<open>
  A property that may be absent at run time is an \<open>option\<close>, \<open>None\<close> standing for
  \<^verbatim>\<open>undefined\<close>. A template literal converts the value it interpolates to a string:
  a string is itself, \<^verbatim>\<open>undefined\<close> is the text \<^verbatim>\<open>undefined\<close>.
\<close>

fun template :: "string option \<Rightarrow> string" where
  "template None = ''undefined''"
| "template (Some s) = s"

text \<open>Truthiness of a string-valued property: absent and empty are falsy.\<close>

fun truthy :: "string option \<Rightarrow> bool" where
  "truthy None = False"
| "truthy (Some s) = (s \<noteq> [])"

text \<open>\<^verbatim>\<open>a || d\<close> for a string-valued property \<open>a\<close>: \<open>a\<close> when it is truthy, else \<open>d\<close>.\<close>

fun or_else :: "string option \<Rightarrow> string \<Rightarrow> string" where
  "or_else None d = d"
| "or_else (Some s) d = (if s \<noteq> [] then s else d)"

text \<open>Thrown values. The client itself only throws \<^verbatim>\<open>Error\<close>; \<^verbatim>\<open>fetch\<close> rejects with a
  \<^verbatim>\<open>TypeError\<close> and \<^verbatim>\<open>response.json()\<close> with a \<^verbatim>\<open>SyntaxError\<close>.\<close>

datatype exn = Error string | TypeError string | SyntaxError string

subsection \<open>Declared interfaces (lines 1-30)\<close>

datatype Status = PENDING | SUCCESS | FAILED

text \<open>The usage numbers are never read by the client; they are carried as integers.\<close>

record job_metadata =
  credits_used :: int
  job_credits_usage :: int
  job_pages :: int
  job_auto_mode_triggered_pages :: int
  job_is_cache_hit :: bool
  credits_max :: int

text \<open>
  A parsed JSON body. The three interfaces \<^verbatim>\<open>UploadResponse\<close>, \<^verbatim>\<open>JobStatus\<close> and
  \<^verbatim>\<open>MarkdownResult\<close> are compile-time views of what \<^verbatim>\<open>response.json()\<close> returns; the
  cast \<^verbatim>\<open>as UploadResponse\<close> checks nothing. One record carries every property the
  interfaces name, each with its declared type and each possibly absent.
\<close>

record json_body =
  id_field :: "string option"
  status :: "Status option"
  error :: "string option"
  markdown :: "string option"
  job_metadata :: "job_metadata option"

type_synonym UploadResponse = json_body
type_synonym JobStatus = json_body
type_synonym MarkdownResult = json_body

text \<open>
  \<^verbatim>\<open>HeadersInit\<close> of the DOM library is a union of three shapes: a \<^verbatim>\<open>Headers\<close> instance,
  an array of name/value pairs, and a plain object from names to values.
\<close>

datatype HeadersInit =
    HeadersInstance "(string \<times> string) list"
  | HeadersPairs "(string \<times> string) list"
  | HeadersRecord "string \<rightharpoonup> string"

record LlamaParseConfig =
  apiKey :: "string option"
  baseUrl :: "string option"
  headers :: "HeadersInit option"

subsection \<open>Requests, responses, the world\<close>

datatype http_method = GET | POST

type_synonym Blob = string
type_synonym FormData = "(string \<times> Blob) list"

record request =
  url :: string
  req_method :: http_method
  req_headers :: "string \<rightharpoonup> string"
  body :: "FormData option"

text \<open>
  Of a response the client reads \<^verbatim>\<open>ok\<close> (set by \<^verbatim>\<open>fetch\<close> exactly for a status code in
  200..299), \<^verbatim>\<open>statusText\<close> and the outcome of \<^verbatim>\<open>json()\<close>.
\<close>

record response =
  ok :: bool
  statusText :: string
  json :: "exn + json_body"

datatype event = Fetch request | SetTimeout nat

record 's world =
  server :: 's
  trace :: "event list"

text \<open>The remote side: from its state and a request, the outcome of \<^verbatim>\<open>fetch\<close> and its next state.\<close>

type_synonym 's remote = "'s \<Rightarrow> request \<Rightarrow> (exn + response) \<times> 's"

definition fetch :: "'s remote \<Rightarrow> request \<Rightarrow> 's world \<Rightarrow> (exn + response) \<times> 's world" where
  "fetch srv req w =
     (case srv (server w) req of
        (out, s') \<Rightarrow> (out, \<lparr>server = s', trace = trace w @ [Fetch req]\<rparr>))"

text \<open>\<^verbatim>\<open>await new Promise((resolve) => setTimeout(resolve, ms))\<close>\<close>

definition setTimeout :: "nat \<Rightarrow> 's world \<Rightarrow> 's world" where
  "setTimeout ms w = w\<lparr>trace := trace w @ [SetTimeout ms]\<rparr>"

subsection \<open>The constructor (lines 50-59)\<close>

text \<open>Decimal text of an array index, as an object key.\<close>

fun string_of_nat :: "nat \<Rightarrow> string" where
  "string_of_nat n =
     (if n < 10 then [''0123456789'' ! n]
      else string_of_nat (n div 10) @ [''0123456789'' ! (n mod 10)])"

text \<open>
  The spread \<^verbatim>\<open>...h\<close> that ends an object literal copies the own enumerable properties
  of \<open>h\<close> over the properties written before it. A plain object gives its
  entries. An array gives one property per index, whose value is the inner array; it is
  recorded as the string \<^verbatim>\<open>fetch\<close> later reads from it (the elements joined by a comma).
  A \<^verbatim>\<open>Headers\<close> instance keeps its entries in an internal list and has no own enumerable
  property, so its spread copies nothing. Spreading \<^verbatim>\<open>undefined\<close> copies nothing.
\<close>

fun spread :: "HeadersInit option \<Rightarrow> (string \<rightharpoonup> string) \<Rightarrow> (string \<rightharpoonup> string)" where
  "spread None obj = obj"
| "spread (Some (HeadersRecord m)) obj = obj ++ m"
| "spread (Some (HeadersPairs ps)) obj =
     obj ++ map_of (zip (map string_of_nat [0..<length ps]) (map (\<lambda>(n, v). n @ '','' @ v) ps))"
| "spread (Some (HeadersInstance hs)) obj = obj"

record LlamaParse =
  baseUrl :: string
  headers :: "string \<rightharpoonup> string"

definition default_baseUrl :: string where
  "default_baseUrl = ''https://api.cloud.llamaindex.ai/api/parsing''"

definition constructor :: "LlamaParseConfig \<Rightarrow> exn + LlamaParse" where
  "constructor config =
     (if \<not> truthy (apiKey config) then Inl (Error ''API key is required'')
      else Inr \<lparr>
        baseUrl = or_else (LlamaParseConfig.baseUrl config) default_baseUrl,
        headers = spread (LlamaParseConfig.headers config)
                    [''Authorization'' \<mapsto> ''Bearer '' @ template (apiKey config),
                     ''accept'' \<mapsto> ''application/json'']\<rparr>)"

subsection \<open>The three requests (lines 88-140)\<close>

definition uploadFile ::
  "'s remote \<Rightarrow> LlamaParse \<Rightarrow> Blob \<Rightarrow> 's world \<Rightarrow> (exn + string option) \<times> 's world" where
  "uploadFile srv this file w =
     (let formData = [(''file'', file)] in
      case fetch srv \<lparr>url = baseUrl this @ ''/upload'', req_method = POST,
                       req_headers = headers this, body = Some formData\<rparr> w of
        (Inl e, w') \<Rightarrow> (Inl e, w')
      | (Inr response, w') \<Rightarrow>
          if \<not> ok response then (Inl (Error (''Upload failed: '' @ statusText response)), w')
          else (case json response of
                  Inl e \<Rightarrow> (Inl e, w')
                | Inr data \<Rightarrow> (Inr (id_field data), w')))"

definition checkStatus ::
  "'s remote \<Rightarrow> LlamaParse \<Rightarrow> string option \<Rightarrow> 's world \<Rightarrow> (exn + JobStatus) \<times> 's world" where
  "checkStatus srv this jobId w =
     (case fetch srv \<lparr>url = baseUrl this @ ''/job/'' @ template jobId, req_method = GET,
                       req_headers = headers this, body = None\<rparr> w of
        (Inl e, w') \<Rightarrow> (Inl e, w')
      | (Inr response, w') \<Rightarrow>
          if \<not> ok response
          then (Inl (Error (''Status check failed: '' @ statusText response)), w')
          else (json response, w'))"

definition getMarkdownResult ::
  "'s remote \<Rightarrow> LlamaParse \<Rightarrow> string option \<Rightarrow> 's world \<Rightarrow> (exn + MarkdownResult) \<times> 's world" where
  "getMarkdownResult srv this jobId w =
     (case fetch srv \<lparr>url = baseUrl this @ ''/job/'' @ template jobId @ ''/result/markdown'',
                       req_method = GET, req_headers = headers this, body = None\<rparr> w of
        (Inl e, w') \<Rightarrow> (Inl e, w')
      | (Inr response, w') \<Rightarrow>
          if \<not> ok response
          then (Inl (Error (''Failed to get results: '' @ statusText response)), w')
          else (json response, w'))"

subsection \<open>parseFile (lines 66-80)\<close>

text \<open>
  The \<^verbatim>\<open>do ... while\<close> loop has no bound. \<open>poll n\<close> runs at most \<open>n\<close> iterations of it:
  the result \<open>None\<close> says that the loop is still running after \<open>n\<close> status checks, and the
  world returned with it holds the trace up to there. A result \<open>Some\<close> is how the loop ends:
  with the exception of a status check, or with the first status that is not
  \<^verbatim>\<open>"PENDING"\<close>. \<open>parseFile n\<close> is the run of \<^verbatim>\<open>parseFile\<close> observed for at most \<open>n\<close>
  iterations of its loop.
\<close>

fun poll ::
  "nat \<Rightarrow> 's remote \<Rightarrow> LlamaParse \<Rightarrow> string option \<Rightarrow> 's world
     \<Rightarrow> (exn + JobStatus) option \<times> 's world" where
  "poll 0 srv this jobId w = (None, w)"
| "poll (Suc n) srv this jobId w =
     (case checkStatus srv this jobId w of
        (Inl e, w1) \<Rightarrow> (Some (Inl e), w1)
      | (Inr st, w1) \<Rightarrow>
          let w2 = setTimeout 1000 w1 in
          if status st = Some PENDING then poll n srv this jobId w2
          else (Some (Inr st), w2))"

definition parseFile ::
  "nat \<Rightarrow> 's remote \<Rightarrow> LlamaParse \<Rightarrow> Blob \<Rightarrow> 's world
     \<Rightarrow> (exn + MarkdownResult) option \<times> 's world" where
  "parseFile n srv this file w =
     (case uploadFile srv this file w of
        (Inl e, w1) \<Rightarrow> (Some (Inl e), w1)
      | (Inr jobId, w1) \<Rightarrow>
          (case poll n srv this jobId w1 of
             (None, w2) \<Rightarrow> (None, w2)
           | (Some (Inl e), w2) \<Rightarrow> (Some (Inl e), w2)
           | (Some (Inr st), w2) \<Rightarrow>
               if status st \<noteq> Some SUCCESS
               then (Some (Inl (Error (''Parsing failed: '' @ template (error st)))), w2)
               else (case getMarkdownResult srv this jobId w2 of
                       (r, w3) \<Rightarrow> (Some r, w3))))"

subsection \<open>Vocabulary for the statements\<close>

text \<open>The requests the three methods pass to \<^verbatim>\<open>fetch\<close>.\<close>

definition upload_request :: "LlamaParse \<Rightarrow> Blob \<Rightarrow> request" where
  "upload_request this file =
     \<lparr>url = baseUrl this @ ''/upload'', req_method = POST,
      req_headers = headers this, body = Some [(''file'', file)]\<rparr>"

definition status_request :: "LlamaParse \<Rightarrow> string option \<Rightarrow> request" where
  "status_request this jobId =
     \<lparr>url = baseUrl this @ ''/job/'' @ template jobId, req_method = GET,
      req_headers = headers this, body = None\<rparr>"

definition result_request :: "LlamaParse \<Rightarrow> string option \<Rightarrow> request" where
  "result_request this jobId =
     \<lparr>url = baseUrl this @ ''/job/'' @ template jobId @ ''/result/markdown'', req_method = GET,
      req_headers = headers this, body = None\<rparr>"

text \<open>
  The server's successive answers to one request sent again and again: its state after
  \<open>k\<close> rounds, and its answer in round \<open>k\<close> (counted from 0).
\<close>

fun state_after :: "'s remote \<Rightarrow> request \<Rightarrow> nat \<Rightarrow> 's \<Rightarrow> 's" where
  "state_after srv q 0 s = s"
| "state_after srv q (Suc k) s = state_after srv q k (snd (srv s q))"

definition reply :: "'s remote \<Rightarrow> request \<Rightarrow> nat \<Rightarrow> 's \<Rightarrow> exn + response" where
  "reply srv q k s = fst (srv (state_after srv q k s) q)"

text \<open>The fetch resolved with a 2xx response whose body parses to \<open>b\<close>.\<close>

definition answers :: "exn + response \<Rightarrow> json_body \<Rightarrow> bool" where
  "answers out b = (case out of Inl e \<Rightarrow> False | Inr r \<Rightarrow> ok r \<and> json r = Inr b)"

text \<open>The status that such an answer reports, if it is one and reports any.\<close>

definition reported_status :: "exn + response \<Rightarrow> Status option" where
  "reported_status out =
     (case out of
        Inl e \<Rightarrow> None
      | Inr r \<Rightarrow> if ok r then (case json r of Inl e \<Rightarrow> None | Inr b \<Rightarrow> status b) else None)"

text \<open>
  A scripted server, as a test double: it answers the requests it receives with the
  responses of its script, in order, whatever the request, and refuses the connection
  once the script is used up.
\<close>

definition scripted :: "response list remote" where
  "scripted s req =
     (case s of [] \<Rightarrow> (Inl (TypeError ''fetch failed''), []) | r # rs \<Rightarrow> (Inr r, rs))"

definition no_body :: json_body where
  "no_body = \<lparr>id_field = None, status = None, error = None, markdown = None,
               job_metadata = None\<rparr>"

definition ok_json :: "json_body \<Rightarrow> response" where
  "ok_json b = \<lparr>ok = True, statusText = ''OK'', json = Inr b\<rparr>"

definition http_error :: "string \<Rightarrow> response" where
  "http_error t = \<lparr>ok = False, statusText = t, json = Inr no_body\<rparr>"

text \<open>A client as the constructor builds it, and the script of the end-to-end scenario.\<close>

definition demo_client :: LlamaParse where
  "demo_client =
     \<lparr>baseUrl = ''https://api.cloud.llamaindex.ai/api/parsing'',
      headers = [''Authorization'' \<mapsto> ''Bearer key'', ''accept'' \<mapsto> ''application/json'']\<rparr>"

definition demo_script :: "response list" where
  "demo_script =
     [ok_json (no_body\<lparr>id_field := Some ''job-1'', status := Some PENDING\<rparr>),
      ok_json (no_body\<lparr>status := Some PENDING\<rparr>),
      ok_json (no_body\<lparr>status := Some PENDING\<rparr>),
      ok_json (no_body\<lparr>status := Some SUCCESS\<rparr>),
      ok_json (no_body\<lparr>markdown := Some ''# Title''\<rparr>)]"

text \<open>The same scenario with a job that fails.\<close>

definition failing_script :: "response list" where
  "failing_script =
     [ok_json (no_body\<lparr>id_field := Some ''job-1'', status := Some PENDING\<rparr>),
      ok_json (no_body\<lparr>status := Some PENDING\<rparr>),
      ok_json (no_body\<lparr>status := Some FAILED, error := Some ''bad scan''\<rparr>),
      ok_json (no_body\<lparr>markdown := Some ''# Title''\<rparr>)]"




section \<open>Properties\<close>

subsection \<open>Auxiliary facts about the methods\<close>


lemma fetch_eq:
  "fetch srv q w = (fst (srv (server w) q), \<lparr>server = snd (srv (server w) q), trace = trace w @ [Fetch q]\<rparr>)"
  by (simp add: fetch_def split: prod.splits)

lemma checkStatus_eq:
  "checkStatus srv this j w =
     (case fst (srv (server w) (status_request this j)) of
        Inl e \<Rightarrow> Inl e
      | Inr r \<Rightarrow> if \<not> ok r then Inl (Error (''Status check failed: '' @ statusText r))
                 else json r,
      \<lparr>server = snd (srv (server w) (status_request this j)),
       trace = trace w @ [Fetch (status_request this j)]\<rparr>)"
  by (simp add: checkStatus_def status_request_def fetch_eq split: sum.splits)

lemma checkStatus_world:
  "snd (checkStatus srv this j w) =
     \<lparr>server = snd (srv (server w) (status_request this j)),
      trace = trace w @ [Fetch (status_request this j)]\<rparr>"
  by (simp add: checkStatus_eq)

lemma checkStatus_answers:
  "answers (fst (srv (server w) (status_request this j))) b \<Longrightarrow>
   fst (checkStatus srv this j w) = Inr b"
  by (auto simp: checkStatus_eq answers_def split: sum.splits)

lemma reported_status_answers:
  "reported_status out = Some st \<Longrightarrow> \<exists>b. answers out b \<and> status b = Some st"
  by (auto simp: reported_status_def answers_def split: sum.splits if_splits)

lemma reply_0: "reply srv q 0 s = fst (srv s q)"
  by (simp add: reply_def)

lemma reply_Suc: "reply srv q (Suc k) s = reply srv q k (snd (srv s q))"
  by (simp add: reply_def)

lemma poll_step_pending:
  assumes "answers (fst (srv (server w) (status_request this j))) b" "status b = Some PENDING"
  shows "poll (Suc n) srv this j w =
           poll n srv this j
             \<lparr>server = snd (srv (server w) (status_request this j)),
              trace = trace w @ [Fetch (status_request this j), SetTimeout 1000]\<rparr>"
proof -
  obtain r w1 where c: "checkStatus srv this j w = (r, w1)" by (cases "checkStatus srv this j w")
  from c checkStatus_answers[of srv w this j b, OF assms(1)] have r: "r = Inr b" by simp
  from c checkStatus_world[of srv this j w] have w1: "w1 = \<lparr>server = snd (srv (server w) (status_request this j)),
      trace = trace w @ [Fetch (status_request this j)]\<rparr>" by simp
  show ?thesis using assms(2) by (simp add: c r w1 setTimeout_def)
qed

lemma poll_step_terminal:
  assumes "answers (fst (srv (server w) (status_request this j))) b" "status b \<noteq> Some PENDING"
  shows "poll (Suc n) srv this j w =
           (Some (Inr b),
             \<lparr>server = snd (srv (server w) (status_request this j)),
              trace = trace w @ [Fetch (status_request this j), SetTimeout 1000]\<rparr>)"
proof -
  obtain r w1 where c: "checkStatus srv this j w = (r, w1)" by (cases "checkStatus srv this j w")
  from c checkStatus_answers[of srv w this j b, OF assms(1)] have r: "r = Inr b" by simp
  from c checkStatus_world[of srv this j w] have w1: "w1 = \<lparr>server = snd (srv (server w) (status_request this j)),
      trace = trace w @ [Fetch (status_request this j)]\<rparr>" by simp
  show ?thesis using assms(2) by (simp add: c r w1 setTimeout_def)
qed

lemma poll_pending_then_terminal:
  assumes "\<forall>i<k. reported_status (reply srv (status_request this j) i (server w)) = Some PENDING"
      and "answers (reply srv (status_request this j) k (server w)) b"
      and "status b \<noteq> Some PENDING"
      and "k < n"
  shows "poll n srv this j w =
           (Some (Inr b),
            \<lparr>server = state_after srv (status_request this j) (Suc k) (server w),
             trace = trace w @ concat (replicate (Suc k) [Fetch (status_request this j), SetTimeout 1000])\<rparr>)"
  using assms
proof (induction k arbitrary: w n)
  case 0
  then obtain n' where n: "n = Suc n'" by (cases n) auto
  from 0 show ?case unfolding n
    using poll_step_terminal[of srv w this j b n'] by (simp add: reply_0)
next
  case (Suc k)
  then obtain n' where n: "n = Suc n'" and kn: "k < n'" by (cases n) auto
  let ?q = "status_request this j"
  let ?w = "\<lparr>server = snd (srv (server w) ?q), trace = trace w @ [Fetch ?q, SetTimeout 1000]\<rparr>"
  from Suc.prems(1) have "reported_status (reply srv ?q 0 (server w)) = Some PENDING" by blast
  then obtain b0 where b0: "answers (fst (srv (server w) ?q)) b0" "status b0 = Some PENDING"
    using reported_status_answers by (fastforce simp: reply_0)
  have step: "poll n srv this j w = poll n' srv this j ?w"
    unfolding n by (rule poll_step_pending[of srv w this j b0, OF b0])
  have h1: "\<forall>i<k. reported_status (reply srv ?q i (server ?w)) = Some PENDING"
    using Suc.prems(1) by (auto simp: reply_Suc[symmetric])
  have h2: "answers (reply srv ?q k (server ?w)) b"
    using Suc.prems(2) by (simp add: reply_Suc)
  show ?case
    unfolding step using Suc.IH[OF h1 h2 Suc.prems(3) kn] by simp
qed


lemma uploadFile_eq:
  "uploadFile srv this file w =
     (case fst (srv (server w) (upload_request this file)) of
        Inl e \<Rightarrow> Inl e
      | Inr r \<Rightarrow> if \<not> ok r then Inl (Error (''Upload failed: '' @ statusText r))
                 else (case json r of Inl e \<Rightarrow> Inl e | Inr d \<Rightarrow> Inr (id_field d)),
      \<lparr>server = snd (srv (server w) (upload_request this file)),
       trace = trace w @ [Fetch (upload_request this file)]\<rparr>)"
  by (simp add: uploadFile_def upload_request_def fetch_eq Let_def split: sum.splits)

lemma getMarkdownResult_eq:
  "getMarkdownResult srv this j w =
     (case fst (srv (server w) (result_request this j)) of
        Inl e \<Rightarrow> Inl e
      | Inr r \<Rightarrow> if \<not> ok r then Inl (Error (''Failed to get results: '' @ statusText r))
                 else json r,
      \<lparr>server = snd (srv (server w) (result_request this j)),
       trace = trace w @ [Fetch (result_request this j)]\<rparr>)"
  by (simp add: getMarkdownResult_def result_request_def fetch_eq split: sum.splits)

lemma uploadFile_answers:
  "answers (fst (srv (server w) (upload_request this file))) ub \<Longrightarrow>
   uploadFile srv this file w =
     (Inr (id_field ub),
      \<lparr>server = snd (srv (server w) (upload_request this file)),
       trace = trace w @ [Fetch (upload_request this file)]\<rparr>)"
  by (auto simp: uploadFile_eq answers_def split: sum.splits)

lemma getMarkdownResult_answers:
  "answers (fst (srv (server w) (result_request this j))) rb \<Longrightarrow>
   fst (getMarkdownResult srv this j w) = Inr rb"
  by (auto simp: getMarkdownResult_eq answers_def split: sum.splits)

lemma status_request_neq_upload: "status_request this j \<noteq> upload_request this file"
  by (simp add: status_request_def upload_request_def)

lemma status_request_neq_result: "status_request this j \<noteq> result_request this j"
  by (simp add: status_request_def result_request_def)

lemma result_request_neq_upload: "result_request this j \<noteq> upload_request this file"
  by (simp add: result_request_def upload_request_def)

lemma count_list_rounds:
  "count_list (concat (replicate k [Fetch q, SetTimeout ms])) (Fetch q') = (if q = q' then k else 0)"
  by (induction k) auto

subsection \<open>Polling until success\<close>

text \<open>
  Claim C1. Let the upload be answered with a body \<open>ub\<close>, and let the server answer the
  status request for the id of \<open>ub\<close> with \<open>k\<close> times PENDING and then SUCCESS. Then
  \<open>parseFile\<close> returns as soon as it is allowed more than \<open>k\<close> iterations. Its effects
  are the upload, \<open>k + 1\<close> rounds of a status check and a delay, and one result fetch:
  \<open>checkStatus\<close> is called \<open>k + 1\<close> times, one more than the number of PENDING answers,
  and the result is fetched once. When the result request is answered with a body,
  \<open>parseFile\<close> resolves with that body. For \<open>k = 2\<close> this is the scenario PENDING,
  PENDING, SUCCESS with three status checks.
\<close>

theorem parseFile_polls_until_success:
  assumes up: "answers (fst (srv (server w) (upload_request this file))) ub"
    and s1: "s1 = snd (srv (server w) (upload_request this file))"
    and pend: "\<forall>i<k. reported_status (reply srv (status_request this (id_field ub)) i s1) = Some PENDING"
    and succ: "reported_status (reply srv (status_request this (id_field ub)) k s1) = Some SUCCESS"
    and fuel: "k < n"
  shows "\<exists>out w' evs.
           parseFile n srv this file w = (Some out, w') \<and>
           trace w' = trace w @ evs \<and>
           evs = Fetch (upload_request this file) #
                 concat (replicate (Suc k)
                   [Fetch (status_request this (id_field ub)), SetTimeout 1000]) @
                 [Fetch (result_request this (id_field ub))] \<and>
           count_list evs (Fetch (status_request this (id_field ub))) = Suc k \<and>
           count_list evs (Fetch (result_request this (id_field ub))) = 1 \<and>
           (\<forall>rb. answers (fst (srv (state_after srv (status_request this (id_field ub)) (Suc k) s1)
                                  (result_request this (id_field ub)))) rb
                 \<longrightarrow> out = Inr rb)"
proof -
  let ?j = "id_field ub"
  let ?sq = "status_request this ?j"
  let ?rq = "result_request this ?j"
  let ?w1 = "\<lparr>server = s1, trace = trace w @ [Fetch (upload_request this file)]\<rparr>"
  let ?w2 = "\<lparr>server = state_after srv ?sq (Suc k) s1,
              trace = trace ?w1 @ concat (replicate (Suc k) [Fetch ?sq, SetTimeout 1000])\<rparr>"
  let ?evs = "Fetch (upload_request this file) #
                 concat (replicate (Suc k) [Fetch ?sq, SetTimeout 1000]) @ [Fetch ?rq]"
  have u: "uploadFile srv this file w = (Inr ?j, ?w1)"
    using uploadFile_answers[of srv w this "file" ub, OF up] s1 by simp
  from succ obtain sb where sb: "answers (reply srv ?sq k s1) sb" "status sb = Some SUCCESS"
    using reported_status_answers by blast
  have p: "poll n srv this ?j ?w1 = (Some (Inr sb), ?w2)"
    using poll_pending_then_terminal[of k srv this ?j ?w1 sb n] pend sb fuel by simp
  obtain out w' where g: "getMarkdownResult srv this ?j ?w2 = (out, w')"
    by (cases "getMarkdownResult srv this ?j ?w2")
  have pf: "parseFile n srv this file w = (Some out, w')"
    using g by (simp add: parseFile_def u p sb)
  have tr: "trace w' = trace w @ ?evs"
    using g by (auto simp: getMarkdownResult_eq)
  have c1: "count_list ?evs (Fetch ?sq) = Suc k"
    using status_request_neq_upload[of this ?j "file"] status_request_neq_result[of this ?j]
    by (simp add: count_list_rounds del: replicate.simps)
  have c2: "count_list ?evs (Fetch ?rq) = 1"
    using result_request_neq_upload[of this ?j "file"] status_request_neq_result[of this ?j]
    by (simp add: count_list_rounds del: replicate.simps)
  have res: "\<forall>rb. answers (fst (srv (state_after srv ?sq (Suc k) s1) ?rq)) rb \<longrightarrow> out = Inr rb"
    using g getMarkdownResult_answers[of srv ?w2 this ?j] by auto
  show ?thesis using pf tr c1 c2 res by blast
qed


theorem parseFile_polls_until_success_witness:
  "\<exists>out w' evs.
     parseFile 3 scripted demo_client ''%PDF'' \<lparr>server = demo_script, trace = []\<rparr> = (Some out, w') \<and>
     trace w' = evs \<and>
     count_list evs (Fetch (status_request demo_client (Some ''job-1''))) = 3 \<and>
     count_list evs (Fetch (result_request demo_client (Some ''job-1''))) = 1 \<and>
     out = Inr (no_body\<lparr>markdown := Some ''# Title''\<rparr>)"
proof -
  let ?w = "\<lparr>server = demo_script, trace = []\<rparr> :: response list world"
  let ?ub = "no_body\<lparr>id_field := Some ''job-1'', status := Some PENDING\<rparr>"
  let ?sq = "status_request demo_client (Some ''job-1'')"
  have h1: "answers (fst (scripted (server ?w) (upload_request demo_client ''%PDF''))) ?ub"
    by (simp add: scripted_def demo_script_def answers_def ok_json_def)
  have h2: "tl demo_script = snd (scripted (server ?w) (upload_request demo_client ''%PDF''))"
    by (simp add: scripted_def demo_script_def)
  have j: "id_field ?ub = Some ''job-1''" by simp
  have h3: "\<forall>i<2. reported_status (reply scripted (status_request demo_client (id_field ?ub)) i (tl demo_script))
              = Some PENDING"
    unfolding j
    by (simp add: less_Suc_eq numeral_2_eq_2 reply_def scripted_def demo_script_def
        reported_status_def ok_json_def no_body_def)
  have h4: "reported_status (reply scripted (status_request demo_client (id_field ?ub)) 2 (tl demo_script))
              = Some SUCCESS"
    unfolding j
    by (simp add: numeral_2_eq_2 reply_def scripted_def demo_script_def
        reported_status_def ok_json_def no_body_def)
  have h5: "answers (fst (scripted (state_after scripted (status_request demo_client (id_field ?ub)) (Suc 2) (tl demo_script))
               (result_request demo_client (id_field ?ub)))) (no_body\<lparr>markdown := Some ''# Title''\<rparr>)"
    unfolding j
    by (simp add: numeral_2_eq_2 scripted_def demo_script_def answers_def ok_json_def)
  from parseFile_polls_until_success[of scripted ?w demo_client "''%PDF''" ?ub "tl demo_script" 2 3,
        OF h1 h2 h3 h4] h5
  show ?thesis unfolding j by (auto simp: numeral_3_eq_3 numeral_2_eq_2)
qed

subsection \<open>A failed job\<close>

text \<open>
  Claim C2. Let the upload be answered with a body \<open>ub\<close>, and let the server answer the
  status request for the id of \<open>ub\<close> with \<open>k\<close> times PENDING and then with FAILED and
  the error message \<open>e\<close>. Then \<open>parseFile\<close>, allowed more than \<open>k\<close> iterations, raises an
  \<^verbatim>\<open>Error\<close> whose message is \<^verbatim>\<open>Parsing failed: \<close> followed by \<open>e\<close> (the error the
  specification calls ParseFailedError), and no event of the run is a fetch of the result
  request.
\<close>

theorem parseFile_failed:
  assumes up: "answers (fst (srv (server w) (upload_request this file))) ub"
    and s1: "s1 = snd (srv (server w) (upload_request this file))"
    and pend: "\<forall>i<k. reported_status (reply srv (status_request this (id_field ub)) i s1) = Some PENDING"
    and failed: "answers (reply srv (status_request this (id_field ub)) k s1) fb"
                "status fb = Some FAILED" "error fb = Some e"
    and fuel: "k < n"
  shows "\<exists>w' evs.
           parseFile n srv this file w = (Some (Inl (Error (''Parsing failed: '' @ e))), w') \<and>
           trace w' = trace w @ evs \<and>
           evs = Fetch (upload_request this file) #
                 concat (replicate (Suc k)
                   [Fetch (status_request this (id_field ub)), SetTimeout 1000]) \<and>
           Fetch (result_request this (id_field ub)) \<notin> set evs"
proof -
  let ?j = "id_field ub"
  let ?sq = "status_request this ?j"
  let ?rq = "result_request this ?j"
  let ?w1 = "\<lparr>server = s1, trace = trace w @ [Fetch (upload_request this file)]\<rparr>"
  let ?w2 = "\<lparr>server = state_after srv ?sq (Suc k) s1,
              trace = trace ?w1 @ concat (replicate (Suc k) [Fetch ?sq, SetTimeout 1000])\<rparr>"
  let ?evs = "Fetch (upload_request this file) #
                 concat (replicate (Suc k) [Fetch ?sq, SetTimeout 1000])"
  have u: "uploadFile srv this file w = (Inr ?j, ?w1)"
    using uploadFile_answers[of srv w this "file" ub, OF up] s1 by simp
  have p: "poll n srv this ?j ?w1 = (Some (Inr fb), ?w2)"
    using poll_pending_then_terminal[of k srv this ?j ?w1 fb n] pend failed fuel by simp
  have pf: "parseFile n srv this file w = (Some (Inl (Error (''Parsing failed: '' @ e))), ?w2)"
    by (simp add: parseFile_def u p failed)
  have "count_list ?evs (Fetch ?rq) = 0"
    using result_request_neq_upload[of this ?j "file"] status_request_neq_result[of this ?j]
    by (simp add: count_list_rounds del: replicate.simps)
  then have nr: "Fetch ?rq \<notin> set ?evs"
    by (metis count_list_0_iff)
  show ?thesis using pf nr by simp
qed

subsection \<open>The shape of every run\<close>

text \<open>
  The effects of the loop, whatever the server does and however long the loop is observed:
  some rounds of a status check followed by a delay, and then one more status check exactly
  when the loop ended with the exception of that check.
\<close>

lemma poll_trace:
  "\<exists>k. trace (snd (poll n srv this j w)) =
         trace w @ concat (replicate k [Fetch (status_request this j), SetTimeout 1000]) @
         (case fst (poll n srv this j w) of
            None \<Rightarrow> []
          | Some (Inl e) \<Rightarrow> [Fetch (status_request this j)]
          | Some (Inr st) \<Rightarrow> [])
       \<and> (\<forall>st. fst (poll n srv this j w) = Some (Inr st) \<longrightarrow> 0 < k)"
proof (induction n arbitrary: w)
  case 0
  show ?case by (rule exI[of _ 0]) simp
next
  case (Suc n)
  let ?q = "status_request this j"
  obtain r w1 where c: "checkStatus srv this j w = (r, w1)" by (cases "checkStatus srv this j w")
  have w1: "trace w1 = trace w @ [Fetch ?q]"
    using c checkStatus_world[of srv this j w] by simp
  show ?case
  proof (cases r)
    case (Inl e)
    show ?thesis by (rule exI[of _ 0]) (simp add: c Inl w1)
  next
    case (Inr st)
    let ?w2 = "setTimeout 1000 w1"
    have w2: "trace ?w2 = trace w @ [Fetch ?q, SetTimeout 1000]"
      by (simp add: setTimeout_def w1)
    show ?thesis
    proof (cases "status st = Some PENDING")
      case True
      then have step: "poll (Suc n) srv this j w = poll n srv this j ?w2"
        by (simp add: c Inr)
      from Suc.IH[of ?w2] obtain k where
        k: "trace (snd (poll n srv this j ?w2)) =
              trace ?w2 @ concat (replicate k [Fetch ?q, SetTimeout 1000]) @
              (case fst (poll n srv this j ?w2) of
                 None \<Rightarrow> [] | Some (Inl e) \<Rightarrow> [Fetch ?q] | Some (Inr st) \<Rightarrow> [])"
        by blast
      show ?thesis unfolding step
        by (rule exI[of _ "Suc k"]) (simp add: k w2)
    next
      case False
      then have "poll (Suc n) srv this j w = (Some (Inr st), ?w2)"
        by (simp add: c Inr)
      then show ?thesis
        by (intro exI[of _ "Suc 0"]) (simp add: w2)
    qed
  qed
qed


lemma poll_first_event:
  assumes "0 < n"
  shows "\<exists>evs. trace (snd (poll n srv this j w)) = trace w @ Fetch (status_request this j) # evs"
proof -
  let ?q = "status_request this j"
  from assms obtain m where n: "n = Suc m" by (cases n) auto
  obtain r w1 where c: "checkStatus srv this j w = (r, w1)" by (cases "checkStatus srv this j w")
  have w1: "trace w1 = trace w @ [Fetch ?q]"
    using c checkStatus_world[of srv this j w] by simp
  show ?thesis
  proof (cases r)
    case (Inl e)
    then show ?thesis by (simp add: n c w1)
  next
    case (Inr st)
    let ?w2 = "setTimeout 1000 w1"
    have w2: "trace ?w2 = trace w @ [Fetch ?q, SetTimeout 1000]"
      by (simp add: setTimeout_def w1)
    show ?thesis
    proof (cases "status st = Some PENDING")
      case True
      then have step: "poll n srv this j w = poll m srv this j ?w2"
        by (simp add: n c Inr)
      from poll_trace[of m srv this j ?w2] obtain evs where
        "trace (snd (poll m srv this j ?w2)) = trace ?w2 @ evs" by blast
      then show ?thesis unfolding step by (simp add: w2)
    next
      case False
      then have "poll n srv this j w = (Some (Inr st), ?w2)"
        by (simp add: n c Inr)
      then show ?thesis by (simp add: w2)
    qed
  qed
qed

lemma parseFile_after_upload:
  assumes "uploadFile srv this file w = (Inr j, w1)"
  shows "trace (snd (parseFile n srv this file w)) =
           trace (snd (poll n srv this j w1)) @
           (case fst (poll n srv this j w1) of
              None \<Rightarrow> []
            | Some (Inl e) \<Rightarrow> []
            | Some (Inr st) \<Rightarrow>
                if status st = Some SUCCESS then [Fetch (result_request this j)] else [])"
proof -
  obtain r w2 where p: "poll n srv this j w1 = (r, w2)" by (cases "poll n srv this j w1")
  show ?thesis
    by (simp add: parseFile_def assms p getMarkdownResult_eq
        split: option.splits sum.splits prod.splits)
qed




lemma poll_events:
  "\<exists>evs. trace (snd (poll n srv this j w)) = trace w @ evs \<and>
         set evs \<subseteq> {Fetch (status_request this j), SetTimeout 1000}"
proof -
  from poll_trace[of n srv this j w] obtain k where
    k: "trace (snd (poll n srv this j w)) =
         trace w @ concat (replicate k [Fetch (status_request this j), SetTimeout 1000]) @
         (case fst (poll n srv this j w) of
            None \<Rightarrow> []
          | Some (Inl e) \<Rightarrow> [Fetch (status_request this j)]
          | Some (Inr st) \<Rightarrow> [])" by blast
  have "set (concat (replicate k [Fetch (status_request this j), SetTimeout 1000]) @
         (case fst (poll n srv this j w) of
            None \<Rightarrow> []
          | Some (Inl e) \<Rightarrow> [Fetch (status_request this j)]
          | Some (Inr st) \<Rightarrow> [])) \<subseteq> {Fetch (status_request this j), SetTimeout 1000}"
    by (auto split: option.splits sum.splits)
  with k show ?thesis by blast
qed

lemma parseFile_terminal_run:
  assumes up: "answers (fst (srv (server w) (upload_request this file))) ub"
    and s1: "s1 = snd (srv (server w) (upload_request this file))"
    and pend: "\<forall>i<k. reported_status (reply srv (status_request this (id_field ub)) i s1) = Some PENDING"
    and fin: "answers (reply srv (status_request this (id_field ub)) k s1) b"
              "status b \<noteq> Some PENDING"
    and fuel: "k < n"
  shows "parseFile n srv this file w =
           (if status b \<noteq> Some SUCCESS
            then (Some (Inl (Error (''Parsing failed: '' @ template (error b)))),
                  \<lparr>server = state_after srv (status_request this (id_field ub)) (Suc k) s1,
                   trace = trace w @ Fetch (upload_request this file) #
                     concat (replicate (Suc k)
                       [Fetch (status_request this (id_field ub)), SetTimeout 1000])\<rparr>)
            else (Some (fst (getMarkdownResult srv this (id_field ub)
                    \<lparr>server = state_after srv (status_request this (id_field ub)) (Suc k) s1,
                     trace = trace w @ Fetch (upload_request this file) #
                       concat (replicate (Suc k)
                         [Fetch (status_request this (id_field ub)), SetTimeout 1000])\<rparr>)),
                  \<lparr>server = snd (srv (state_after srv (status_request this (id_field ub)) (Suc k) s1)
                                  (result_request this (id_field ub))),
                   trace = trace w @ Fetch (upload_request this file) #
                     concat (replicate (Suc k)
                       [Fetch (status_request this (id_field ub)), SetTimeout 1000]) @
                     [Fetch (result_request this (id_field ub))]\<rparr>))"
proof -
  let ?j = "id_field ub"
  let ?sq = "status_request this ?j"
  let ?w1 = "\<lparr>server = s1, trace = trace w @ [Fetch (upload_request this file)]\<rparr>"
  let ?w2 = "\<lparr>server = state_after srv ?sq (Suc k) s1,
              trace = trace ?w1 @ concat (replicate (Suc k) [Fetch ?sq, SetTimeout 1000])\<rparr>"
  have u: "uploadFile srv this file w = (Inr ?j, ?w1)"
    using uploadFile_answers[of srv w this "file" ub, OF up] s1 by simp
  have p: "poll n srv this ?j ?w1 = (Some (Inr b), ?w2)"
    using poll_pending_then_terminal[of k srv this ?j ?w1 b n] pend fin fuel by simp
  show ?thesis
    by (simp add: parseFile_def u p getMarkdownResult_eq)
qed


text \<open>
  Claim C8, amended. \<open>parseFile\<close> does not inspect the id that \<open>uploadFile\<close> returns.
  Let the upload be answered with a body whose id is any string, the empty one too, or is
  absent. The request that follows the upload is the status request, a GET of the base URL,
  \<^verbatim>\<open>/job/\<close> and the id as the template literal prints it (nothing for the empty string,
  \<^verbatim>\<open>undefined\<close> for an absent id). Every later effect of the run is that status request, the
  delay, or the result request for the same id, a GET of the same URL followed by
  \<^verbatim>\<open>/result/markdown\<close>. When the answers to the status request are \<open>k\<close> times PENDING and
  then SUCCESS, the run returns and ends with that result request.
\<close>

theorem parseFile_status_call_with_upload_id:
  assumes up: "answers (fst (srv (server w) (upload_request this file))) ub"
    and s1: "s1 = snd (srv (server w) (upload_request this file))"
    and sq: "sq = \<lparr>url = baseUrl this @ ''/job/'' @ template (id_field ub), req_method = GET,
                   req_headers = headers this, body = None\<rparr>"
    and rq: "rq = \<lparr>url = baseUrl this @ ''/job/'' @ template (id_field ub) @ ''/result/markdown'',
                   req_method = GET, req_headers = headers this, body = None\<rparr>"
    and n: "0 < n"
  shows
    "(\<exists>evs. trace (snd (parseFile n srv this file w)) =
             trace w @ Fetch (upload_request this file) # Fetch sq # evs \<and>
           set evs \<subseteq> {Fetch sq, SetTimeout 1000, Fetch rq}) \<and>
     (\<forall>k<n. (\<forall>i<k. reported_status (reply srv sq i s1) = Some PENDING) \<and>
             reported_status (reply srv sq k s1) = Some SUCCESS \<longrightarrow>
        (\<exists>out. fst (parseFile n srv this file w) = Some out) \<and>
        trace (snd (parseFile n srv this file w)) =
          trace w @ Fetch (upload_request this file) #
          concat (replicate (Suc k) [Fetch sq, SetTimeout 1000]) @ [Fetch rq])"
proof -
  let ?j = "id_field ub"
  let ?w1 = "\<lparr>server = s1, trace = trace w @ [Fetch (upload_request this file)]\<rparr>"
  have sq': "sq = status_request this ?j" by (simp add: sq status_request_def)
  have rq': "rq = result_request this ?j" by (simp add: rq result_request_def)
  have u: "uploadFile srv this file w = (Inr ?j, ?w1)"
    using uploadFile_answers[of srv w this "file" ub, OF up] s1 by simp
  from poll_first_event[OF n, of srv this ?j ?w1] obtain evs where
    e: "trace (snd (poll n srv this ?j ?w1)) = trace ?w1 @ Fetch sq # evs"
    unfolding sq' by blast
  from poll_events[of n srv this ?j ?w1] obtain evs' where
    e': "trace (snd (poll n srv this ?j ?w1)) = trace ?w1 @ evs'"
        "set evs' \<subseteq> {Fetch sq, SetTimeout 1000}"
    unfolding sq' by blast
  from e e' have "evs' = Fetch sq # evs" by simp
  with e'(2) have sub: "set evs \<subseteq> {Fetch sq, SetTimeout 1000}" by auto
  let ?tl = "(case fst (poll n srv this ?j ?w1) of
              None \<Rightarrow> []
            | Some (Inl e) \<Rightarrow> []
            | Some (Inr st) \<Rightarrow>
                if status st = Some SUCCESS then [Fetch rq] else [])"
  have t: "trace (snd (parseFile n srv this file w)) =
             trace w @ Fetch (upload_request this file) # Fetch sq # (evs @ ?tl)"
    unfolding parseFile_after_upload[OF u] e rq' by simp
  have "set (evs @ ?tl) \<subseteq> {Fetch sq, SetTimeout 1000, Fetch rq}"
    using sub by (auto split: option.splits sum.splits)
  with t have part1: "\<exists>evs. trace (snd (parseFile n srv this file w)) =
             trace w @ Fetch (upload_request this file) # Fetch sq # evs \<and>
           set evs \<subseteq> {Fetch sq, SetTimeout 1000, Fetch rq}"
    by blast
  have part2: "(\<exists>out. fst (parseFile n srv this file w) = Some out) \<and>
        trace (snd (parseFile n srv this file w)) =
          trace w @ Fetch (upload_request this file) #
          concat (replicate (Suc k) [Fetch sq, SetTimeout 1000]) @ [Fetch rq]"
    if "k < n" "\<forall>i<k. reported_status (reply srv sq i s1) = Some PENDING"
       "reported_status (reply srv sq k s1) = Some SUCCESS" for k
  proof -
    from that(3) obtain sb where sb: "answers (reply srv sq k s1) sb" "status sb = Some SUCCESS"
      using reported_status_answers by blast
    show ?thesis
      using parseFile_terminal_run[of srv w this "file" ub s1 k sb n] up s1 that sb
      by (simp add: sq' rq')
  qed
  from part1 part2 show ?thesis by blast
qed

subsection \<open>The constructor\<close>

text \<open>
  Claim C3. With a missing or empty API key the constructor throws the \<^verbatim>\<open>Error\<close>
  \<^verbatim>\<open>API key is required\<close> (the specification's ConfigError); with a non-empty API key it
  returns a client.
\<close>

theorem constructor_requires_apiKey:
  "(apiKey config = None \<or> apiKey config = Some '''' \<longrightarrow>
      constructor config = Inl (Error ''API key is required'')) \<and>
   ((\<exists>k. apiKey config = Some k \<and> k \<noteq> '''') \<longrightarrow> (\<exists>this. constructor config = Inr this))"
  by (auto simp: constructor_def)

theorem constructor_requires_apiKey_witness:
  "constructor \<lparr>apiKey = None, baseUrl = None, headers = None\<rparr> = Inl (Error ''API key is required'') \<and>
   constructor \<lparr>apiKey = Some '''', baseUrl = None, headers = None\<rparr> = Inl (Error ''API key is required'') \<and>
   (\<exists>this. constructor \<lparr>apiKey = Some ''key'', baseUrl = None, headers = None\<rparr> = Inr this)"
  using constructor_requires_apiKey[of "\<lparr>apiKey = None, baseUrl = None, headers = None\<rparr>"]
    constructor_requires_apiKey[of "\<lparr>apiKey = Some '''', baseUrl = None, headers = None\<rparr>"]
    constructor_requires_apiKey[of "\<lparr>apiKey = Some ''key'', baseUrl = None, headers = None\<rparr>"]
  by simp

text \<open>
  Claim C9. A config whose \<open>baseUrl\<close> is the empty string gives a client with the default
  base URL, the same client as the config with \<open>baseUrl\<close> omitted.
\<close>

theorem constructor_empty_baseUrl:
  assumes "truthy (apiKey config)" and "LlamaParseConfig.baseUrl config = Some ''''"
  shows "\<exists>this. constructor config = Inr this \<and>
           baseUrl this = ''https://api.cloud.llamaindex.ai/api/parsing'' \<and>
           constructor \<lparr>apiKey = apiKey config, baseUrl = None,
                        headers = LlamaParseConfig.headers config\<rparr> = Inr this"
  using assms by (simp add: constructor_def default_baseUrl_def)

theorem constructor_empty_baseUrl_witness:
  "\<exists>this. constructor \<lparr>apiKey = Some ''key'', baseUrl = Some '''', headers = None\<rparr> = Inr this \<and>
           baseUrl this = ''https://api.cloud.llamaindex.ai/api/parsing'' \<and>
           constructor \<lparr>apiKey = Some ''key'', baseUrl = None, headers = None\<rparr> = Inr this"
  using constructor_empty_baseUrl[of "\<lparr>apiKey = Some ''key'', baseUrl = Some '''', headers = None\<rparr>"]
  by simp

text \<open>
  Headers given as a plain object are merged by property name, compared exactly (letter case
  included): a caller's entry wins over a default of the same name, and a name the caller
  does not give keeps its default.
\<close>

lemma constructor_merges_record:
  assumes "truthy (apiKey config)" and "LlamaParseConfig.headers config = Some (HeadersRecord m)"
  shows "\<exists>this. constructor config = Inr this \<and>
           (\<forall>k v. m k = Some v \<longrightarrow> headers this k = Some v) \<and>
           (\<forall>k. m k = None \<longrightarrow>
              headers this k =
                [''Authorization'' \<mapsto> ''Bearer '' @ template (apiKey config),
                 ''accept'' \<mapsto> ''application/json''] k)"
  using assms by (simp add: constructor_def map_add_def)

text \<open>
  Claim C4 fails on the code. The caller's headers are declared as \<^verbatim>\<open>HeadersInit\<close>, and the
  constructor merges them with an object spread, which copies own enumerable properties
  only. For a \<^verbatim>\<open>Headers\<close> instance there are none: a caller's \<^verbatim>\<open>Authorization\<close> given that
  way is dropped, and the client keeps the default bearer header.
\<close>

theorem constructor_drops_Headers_instance:
  "constructor \<lparr>apiKey = Some ''key'', baseUrl = None,
                headers = Some (HeadersInstance [(''Authorization'', ''Token t'')])\<rparr> =
   Inr \<lparr>baseUrl = ''https://api.cloud.llamaindex.ai/api/parsing'',
        headers = [''Authorization'' \<mapsto> ''Bearer key'', ''accept'' \<mapsto> ''application/json'']\<rparr>"
  by (simp add: constructor_def default_baseUrl_def)

text \<open>
  Headers given as an array of pairs do not override a default either: the spread copies the
  array's indices as names.
\<close>

lemma constructor_Headers_pairs:
  "\<exists>this. constructor \<lparr>apiKey = Some ''key'', baseUrl = None,
                headers = Some (HeadersPairs [(''Authorization'', ''Token t'')])\<rparr> = Inr this \<and>
      headers this ''Authorization'' = Some ''Bearer key'' \<and>
      headers this ''0'' = Some ''Authorization,Token t''"
  by (simp add: constructor_def default_baseUrl_def)

subsection \<open>The three requests\<close>

text \<open>
  Claim C5. \<open>uploadFile\<close> sends the upload request. When the response is not ok (not 2xx),
  it throws the \<^verbatim>\<open>Error\<close> \<^verbatim>\<open>Upload failed: \<close> followed by the response's status text (the
  specification's UploadError); when the response is ok and its body parses to \<open>d\<close>, it
  returns the \<open>id\<close> field of \<open>d\<close>.
\<close>

theorem uploadFile_result:
  assumes "fst (srv (server w) (upload_request this file)) = Inr r"
  shows "trace (snd (uploadFile srv this file w)) = trace w @ [Fetch (upload_request this file)] \<and>
         (\<not> ok r \<longrightarrow>
            fst (uploadFile srv this file w) = Inl (Error (''Upload failed: '' @ statusText r))) \<and>
         (ok r \<longrightarrow> (\<forall>d. json r = Inr d \<longrightarrow> fst (uploadFile srv this file w) = Inr (id_field d)))"
  using assms by (simp add: uploadFile_eq)

theorem uploadFile_result_witness:
  "fst (uploadFile scripted demo_client ''%PDF'' \<lparr>server = [http_error ''Unauthorized''], trace = []\<rparr>)
     = Inl (Error ''Upload failed: Unauthorized'') \<and>
   fst (uploadFile scripted demo_client ''%PDF''
          \<lparr>server = [ok_json (no_body\<lparr>id_field := Some ''job-1'', status := Some PENDING\<rparr>)],
           trace = []\<rparr>)
     = Inr (Some ''job-1'')"
  using uploadFile_result[of scripted "\<lparr>server = [http_error ''Unauthorized''], trace = []\<rparr>"
          demo_client "''%PDF''" "http_error ''Unauthorized''"]
    uploadFile_result[of scripted
          "\<lparr>server = [ok_json (no_body\<lparr>id_field := Some ''job-1'', status := Some PENDING\<rparr>)],
            trace = []\<rparr>"
          demo_client "''%PDF''" "ok_json (no_body\<lparr>id_field := Some ''job-1'', status := Some PENDING\<rparr>)"]
  by (simp add: scripted_def http_error_def ok_json_def)

text \<open>
  Claim C6. \<open>checkStatus\<close> sends the status request. When the response is ok and its body
  parses to \<open>b\<close>, it returns \<open>b\<close> itself, so with the status and the error of the server
  unchanged; when the response is not ok, it throws the \<^verbatim>\<open>Error\<close>
  \<^verbatim>\<open>Status check failed: \<close> followed by the status text (the specification's
  StatusCheckError).
\<close>

theorem checkStatus_result:
  assumes "fst (srv (server w) (status_request this jobId)) = Inr r"
  shows "trace (snd (checkStatus srv this jobId w)) = trace w @ [Fetch (status_request this jobId)] \<and>
         (ok r \<longrightarrow> (\<forall>b. json r = Inr b \<longrightarrow> fst (checkStatus srv this jobId w) = Inr b)) \<and>
         (\<not> ok r \<longrightarrow>
            fst (checkStatus srv this jobId w) =
              Inl (Error (''Status check failed: '' @ statusText r)))"
  using assms by (simp add: checkStatus_eq)

theorem checkStatus_result_witness:
  "fst (checkStatus scripted demo_client (Some ''job-1'')
          \<lparr>server = [ok_json (no_body\<lparr>status := Some FAILED, error := Some ''bad scan''\<rparr>)],
           trace = []\<rparr>)
     = Inr (no_body\<lparr>status := Some FAILED, error := Some ''bad scan''\<rparr>) \<and>
   fst (checkStatus scripted demo_client (Some ''job-1'')
          \<lparr>server = [http_error ''Not Found''], trace = []\<rparr>)
     = Inl (Error ''Status check failed: Not Found'')"
  using checkStatus_result[of scripted
          "\<lparr>server = [ok_json (no_body\<lparr>status := Some FAILED, error := Some ''bad scan''\<rparr>)],
            trace = []\<rparr>"
          demo_client "Some ''job-1''"
          "ok_json (no_body\<lparr>status := Some FAILED, error := Some ''bad scan''\<rparr>)"]
    checkStatus_result[of scripted "\<lparr>server = [http_error ''Not Found''], trace = []\<rparr>"
          demo_client "Some ''job-1''" "http_error ''Not Found''"]
  by (simp add: scripted_def http_error_def ok_json_def)

text \<open>
  Claim C7. For every job id, \<open>getMarkdownResult\<close> sends a GET request to the base URL
  followed by \<^verbatim>\<open>/job/\<close>, the job id and \<^verbatim>\<open>/result/markdown\<close>. When the response is not ok,
  it throws the \<^verbatim>\<open>Error\<close> \<^verbatim>\<open>Failed to get results: \<close> followed by the status text (the
  specification's ResultFetchError); when the response is ok and its body parses to \<open>b\<close>,
  it returns \<open>b\<close>.
\<close>

theorem getMarkdownResult_result:
  "trace (snd (getMarkdownResult srv this (Some jobId) w)) =
     trace w @ [Fetch \<lparr>url = baseUrl this @ ''/job/'' @ jobId @ ''/result/markdown'',
                       req_method = GET, req_headers = headers this, body = None\<rparr>] \<and>
   (\<forall>r. fst (srv (server w) (result_request this (Some jobId))) = Inr r \<longrightarrow>
      (\<not> ok r \<longrightarrow>
         fst (getMarkdownResult srv this (Some jobId) w) =
           Inl (Error (''Failed to get results: '' @ statusText r))) \<and>
      (ok r \<longrightarrow> (\<forall>b. json r = Inr b \<longrightarrow>
         fst (getMarkdownResult srv this (Some jobId) w) = Inr b)))"
  by (simp add: getMarkdownResult_eq) (simp add: result_request_def)

theorem getMarkdownResult_result_witness:
  "fst (getMarkdownResult scripted demo_client (Some ''job-1'')
          \<lparr>server = [http_error ''Not Found''], trace = []\<rparr>)
     = Inl (Error ''Failed to get results: Not Found'') \<and>
   fst (getMarkdownResult scripted demo_client (Some ''job-1'')
          \<lparr>server = [ok_json (no_body\<lparr>markdown := Some ''# Title''\<rparr>)], trace = []\<rparr>)
     = Inr (no_body\<lparr>markdown := Some ''# Title''\<rparr>)"
  using getMarkdownResult_result[of scripted demo_client "''job-1''"
          "\<lparr>server = [http_error ''Not Found''], trace = []\<rparr>"]
    getMarkdownResult_result[of scripted demo_client "''job-1''"
          "\<lparr>server = [ok_json (no_body\<lparr>markdown := Some ''# Title''\<rparr>)], trace = []\<rparr>"]
  by (simp add: scripted_def http_error_def ok_json_def)

subsection \<open>Concrete runs\<close>

text \<open>The definitions that evaluate a run against the scripted server.\<close>

lemmas run_defs =
  parseFile_def uploadFile_def checkStatus_def getMarkdownResult_def fetch_def setTimeout_def
  scripted_def ok_json_def http_error_def no_body_def demo_client_def
  upload_request_def status_request_def result_request_def

theorem parseFile_failed_witness:
  "\<exists>w'. parseFile 2 scripted demo_client ''%PDF'' \<lparr>server = failing_script, trace = []\<rparr>
           = (Some (Inl (Error ''Parsing failed: bad scan'')), w') \<and>
        Fetch (result_request demo_client (Some ''job-1'')) \<notin> set (trace w')"
proof -
  let ?w = "\<lparr>server = failing_script, trace = []\<rparr> :: response list world"
  let ?ub = "no_body\<lparr>id_field := Some ''job-1'', status := Some PENDING\<rparr>"
  let ?fb = "no_body\<lparr>status := Some FAILED, error := Some ''bad scan''\<rparr>"
  have h1: "answers (fst (scripted (server ?w) (upload_request demo_client ''%PDF''))) ?ub"
    by (simp add: scripted_def failing_script_def answers_def ok_json_def)
  have h2: "tl failing_script = snd (scripted (server ?w) (upload_request demo_client ''%PDF''))"
    by (simp add: scripted_def failing_script_def)
  have j: "id_field ?ub = Some ''job-1''" by simp
  have h3: "\<forall>i<1. reported_status
              (reply scripted (status_request demo_client (id_field ?ub)) i (tl failing_script))
              = Some PENDING"
    unfolding j
    by (simp add: reply_def scripted_def failing_script_def reported_status_def ok_json_def
        no_body_def)
  have h4: "answers (reply scripted (status_request demo_client (id_field ?ub)) 1 (tl failing_script)) ?fb"
    unfolding j
    by (simp add: reply_def scripted_def failing_script_def answers_def ok_json_def)
  have h5: "status ?fb = Some FAILED" by simp
  have h6: "error ?fb = Some ''bad scan''" by simp
  from parseFile_failed[of scripted ?w demo_client "''%PDF''" ?ub "tl failing_script" 1 ?fb
        "''bad scan''" 2, OF h1 h2 h3 h4 h5 h6]
  show ?thesis unfolding j by auto
qed


theorem parseFile_status_call_with_upload_id_witness:
  "trace (snd (parseFile 1 scripted demo_client ''%PDF''
       \<lparr>server = [ok_json (no_body\<lparr>id_field := Some ''''\<rparr>),
                  ok_json (no_body\<lparr>status := Some SUCCESS\<rparr>),
                  ok_json (no_body\<lparr>markdown := Some ''# Title''\<rparr>)], trace = []\<rparr>))
     = [Fetch (upload_request demo_client ''%PDF''),
        Fetch \<lparr>url = ''https://api.cloud.llamaindex.ai/api/parsing/job/'', req_method = GET,
               req_headers = headers demo_client, body = None\<rparr>,
        SetTimeout 1000,
        Fetch \<lparr>url = ''https://api.cloud.llamaindex.ai/api/parsing/job//result/markdown'',
               req_method = GET, req_headers = headers demo_client, body = None\<rparr>] \<and>
   trace (snd (parseFile 1 scripted demo_client ''%PDF''
       \<lparr>server = [ok_json (no_body\<lparr>status := Some PENDING\<rparr>),
                  ok_json (no_body\<lparr>status := Some SUCCESS\<rparr>),
                  ok_json (no_body\<lparr>markdown := Some ''# Title''\<rparr>)], trace = []\<rparr>))
     = [Fetch (upload_request demo_client ''%PDF''),
        Fetch \<lparr>url = ''https://api.cloud.llamaindex.ai/api/parsing/job/undefined'',
               req_method = GET, req_headers = headers demo_client, body = None\<rparr>,
        SetTimeout 1000,
        Fetch \<lparr>url = ''https://api.cloud.llamaindex.ai/api/parsing/job/undefined/result/markdown'',
               req_method = GET, req_headers = headers demo_client, body = None\<rparr>]"
proof -
  let ?up = "upload_request demo_client ''%PDF''"
  let ?rest = "[ok_json (no_body\<lparr>status := Some SUCCESS\<rparr>),
                ok_json (no_body\<lparr>markdown := Some ''# Title''\<rparr>)]"
  note ev = reply_def scripted_def reported_status_def answers_def ok_json_def no_body_def
    demo_client_def
  have r1: "trace (snd (parseFile 1 scripted demo_client ''%PDF''
       \<lparr>server = ok_json (no_body\<lparr>id_field := Some ''''\<rparr>) # ?rest, trace = []\<rparr>))
     = [Fetch ?up,
        Fetch \<lparr>url = ''https://api.cloud.llamaindex.ai/api/parsing/job/'', req_method = GET,
               req_headers = headers demo_client, body = None\<rparr>,
        SetTimeout 1000,
        Fetch \<lparr>url = ''https://api.cloud.llamaindex.ai/api/parsing/job//result/markdown'',
               req_method = GET, req_headers = headers demo_client, body = None\<rparr>]"
    using parseFile_status_call_with_upload_id[of scripted
            "\<lparr>server = ok_json (no_body\<lparr>id_field := Some ''''\<rparr>) # ?rest, trace = []\<rparr>"
            demo_client "''%PDF''" "no_body\<lparr>id_field := Some ''''\<rparr>" ?rest
            "\<lparr>url = ''https://api.cloud.llamaindex.ai/api/parsing/job/'', req_method = GET,
               req_headers = headers demo_client, body = None\<rparr>"
            "\<lparr>url = ''https://api.cloud.llamaindex.ai/api/parsing/job//result/markdown'',
               req_method = GET, req_headers = headers demo_client, body = None\<rparr>" 1]
    by (simp add: ev)
  have r2: "trace (snd (parseFile 1 scripted demo_client ''%PDF''
       \<lparr>server = ok_json (no_body\<lparr>status := Some PENDING\<rparr>) # ?rest, trace = []\<rparr>))
     = [Fetch ?up,
        Fetch \<lparr>url = ''https://api.cloud.llamaindex.ai/api/parsing/job/undefined'',
               req_method = GET, req_headers = headers demo_client, body = None\<rparr>,
        SetTimeout 1000,
        Fetch \<lparr>url = ''https://api.cloud.llamaindex.ai/api/parsing/job/undefined/result/markdown'',
               req_method = GET, req_headers = headers demo_client, body = None\<rparr>]"
    using parseFile_status_call_with_upload_id[of scripted
            "\<lparr>server = ok_json (no_body\<lparr>status := Some PENDING\<rparr>) # ?rest, trace = []\<rparr>"
            demo_client "''%PDF''" "no_body\<lparr>status := Some PENDING\<rparr>" ?rest
            "\<lparr>url = ''https://api.cloud.llamaindex.ai/api/parsing/job/undefined'',
               req_method = GET, req_headers = headers demo_client, body = None\<rparr>"
            "\<lparr>url = ''https://api.cloud.llamaindex.ai/api/parsing/job/undefined/result/markdown'',
               req_method = GET, req_headers = headers demo_client, body = None\<rparr>" 1]
    by (simp add: ev)
  from r1 r2 show ?thesis by simp
qed

text \<open>
  Claim C8 as stated fails: the upload answers with the empty id, and \<open>parseFile\<close> goes on
  to request the status and then the result of the job with that id.
\<close>

theorem parseFile_empty_id_counterexample:
  "fst (uploadFile scripted demo_client ''%PDF''
         \<lparr>server = [ok_json (no_body\<lparr>id_field := Some ''''\<rparr>),
                    ok_json (no_body\<lparr>status := Some SUCCESS\<rparr>),
                    ok_json (no_body\<lparr>markdown := Some ''# Title''\<rparr>)], trace = []\<rparr>)
     = Inr (Some '''') \<and>
   trace (snd (parseFile 1 scripted demo_client ''%PDF''
         \<lparr>server = [ok_json (no_body\<lparr>id_field := Some ''''\<rparr>),
                    ok_json (no_body\<lparr>status := Some SUCCESS\<rparr>),
                    ok_json (no_body\<lparr>markdown := Some ''# Title''\<rparr>)], trace = []\<rparr>))
     = [Fetch (upload_request demo_client ''%PDF''),
        Fetch \<lparr>url = ''https://api.cloud.llamaindex.ai/api/parsing/job/'', req_method = GET,
               req_headers = headers demo_client, body = None\<rparr>,
        SetTimeout 1000,
        Fetch \<lparr>url = ''https://api.cloud.llamaindex.ai/api/parsing/job//result/markdown'',
               req_method = GET, req_headers = headers demo_client, body = None\<rparr>]"
  by (simp add: run_defs)


end
